theory Spec2Isabelle
  imports Complex_Main "HOL-Library.AList"
begin

unbundle bit_operations_syntax

section \<open>Enumerated vocabularies (front/models.py, lines 10-58)\<close>

text \<open>
  Every vocabulary is a tuple of (code, label) pairs.  The labels are lazily translated
  strings; they are represented by their message ids.  Python integers are unbounded, so
  the help codes are \<^typ>\<open>int\<close>.
\<close>

definition GENDER :: "(string \<times> string) list" where
  "GENDER = [(''male'', ''Male''), (''female'', ''Female'')]"


definition HELP_OFFER :: "(int \<times> string) list" where
  "HELP_OFFER =
    [(1, ''Teach someone to ride a bike''),
     (2, ''Follow beginners on cycling''),
     (4, ''Advice about safe routes''),
     (8, ''Participating in the events of Bike Anjos'')]"

definition HELP_REQUEST :: "(int \<times> string) list" where
  "HELP_REQUEST =
    [(16, ''Learn to ride a bike''),
     (32, ''Pratice cycling''),
     (64, ''Monitoring on traffic''),
     (128, ''Route recomendation'')]"

definition HELP :: "(int \<times> string) list" where
  "HELP = HELP_OFFER @ HELP_REQUEST"






section \<open>Entities\<close>

text \<open>
  A timestamp is an instant on the time line, counted in microseconds (the resolution of
  Python's datetime); a date is a day number.  Only the order of timestamps is used.
\<close>

type_synonym datetime = int
type_synonym date = int

datatype error = TypeError | ValidationError "string list" | DatabaseError

text \<open>
  \<open>BaseModel\<close>: the two audit timestamps, together with the primary key \<open>id\<close> that every
  model carries.  All three are \<open>None\<close> on an instance that has not been saved: the
  key is assigned on insertion, \<open>created_date\<close> is \<open>auto_now_add\<close> and
  \<open>modified_date\<close> is \<open>auto_now\<close>.  The field \<open>id\<close> is written \<open>id'\<close>.
\<close>

record BaseModel =
  id' :: "int option"
  created_date :: "datetime option"
  modified_date :: "datetime option"

text \<open>\<open>User\<close>: the fields the class adds to the account record it extends.\<close>

record User =
  country :: string
  city :: string
  gender :: string
  birthday :: "date option"
  ride_experience :: string
  bike_use :: string
  help_with :: int
  initiatives :: string
  role :: string

text \<open>
  \<open>HelpRequest\<close>: a reference holds the key of the row it points to, \<open>None\<close> for no
  row; so do the references of the models below.
\<close>

record HelpRequest = BaseModel +
  requester :: "int option"
  volunteer :: "int option"
  help_with :: int
  status :: string
  last_access :: datetime



text \<open>
  \<open>Track\<close> and \<open>Point\<close>: a line string is the sequence of its (x, y) coordinate pairs, a
  point is one pair.  The coordinates are stored and handed out unchanged; no arithmetic
  is done on them.  The field \<open>end\<close> is written \<open>end'\<close>.
\<close>

record Track = BaseModel +
  user :: "int option"
  start :: string
  end' :: string
  track :: "(real \<times> real) list"

record Point = BaseModel +
  user :: "int option"
  address :: string
  coords :: "real \<times> real"


section \<open>Decoding the help bitmask\<close>

text \<open>
  \<open>User.help_labels\<close> (lines 91-96) is a generator; its value is the finite sequence of
  labels it yields.  The loop over \<open>HELP\<close> is a recursion over the entries still to be
  visited: \<open>break\<close> ends the sequence, a set bit yields the label and goes on.
  \<open>AND\<close> on \<^typ>\<open>int\<close> is Python's \<open>&\<close> (two's complement on unbounded integers), and a
  Python integer is true when it is not zero.
\<close>

fun User_help_labels_from :: "User \<Rightarrow> (int \<times> string) list \<Rightarrow> string list" where
  "User_help_labels_from self [] = []"
| "User_help_labels_from self ((code, label) # rest) =
     (if User.help_with self \<ge> code then []
      else if User.help_with self AND code \<noteq> 0
        then label # User_help_labels_from self rest
      else User_help_labels_from self rest)"

definition User_help_labels :: "User \<Rightarrow> string list" where
  "User_help_labels self = User_help_labels_from self HELP"

text \<open>\<open>HelpRequest.help_labels\<close> (lines 142-147), translated from its own text.\<close>

fun HelpRequest_help_labels_from :: "HelpRequest \<Rightarrow> (int \<times> string) list \<Rightarrow> string list" where
  "HelpRequest_help_labels_from self [] = []"
| "HelpRequest_help_labels_from self ((code, label) # rest) =
     (if HelpRequest.help_with self \<ge> code then []
      else if HelpRequest.help_with self AND code \<noteq> 0
        then label # HelpRequest_help_labels_from self rest
      else HelpRequest_help_labels_from self rest)"

definition HelpRequest_help_labels :: "HelpRequest \<Rightarrow> string list" where
  "HelpRequest_help_labels self = HelpRequest_help_labels_from self HELP"


section \<open>The status filters\<close>

text \<open>
  \<open>HelpStatusQuerySet\<close> (lines 99-116).  A query set is the sequence of the rows it
  holds.  \<open>filter(status__in=vs)\<close> keeps the rows whose status is one of \<open>vs\<close>,
  \<open>filter(status=v)\<close> those whose status is \<open>v\<close>; both keep the order of the rows.
\<close>

type_synonym HelpStatusQuerySet = "HelpRequest list"

definition filter_status_in :: "string list \<Rightarrow> HelpStatusQuerySet \<Rightarrow> HelpStatusQuerySet" where
  "filter_status_in vs self = filter (\<lambda>r. status r \<in> set vs) self"

definition filter_status :: "string \<Rightarrow> HelpStatusQuerySet \<Rightarrow> HelpStatusQuerySet" where
  "filter_status v self = filter (\<lambda>r. status r = v) self"

definition active :: "HelpStatusQuerySet \<Rightarrow> HelpStatusQuerySet" where
  "active self = filter_status_in [''new'', ''assigned''] self"

definition new :: "HelpStatusQuerySet \<Rightarrow> HelpStatusQuerySet" where
  "new self = filter_status ''new'' self"

definition assigned :: "HelpStatusQuerySet \<Rightarrow> HelpStatusQuerySet" where
  "assigned self = filter_status ''assigned'' self"

definition closed :: "HelpStatusQuerySet \<Rightarrow> HelpStatusQuerySet" where
  "closed self = filter_status_in [''canceled'', ''attended''] self"

definition canceled :: "HelpStatusQuerySet \<Rightarrow> HelpStatusQuerySet" where
  "canceled self = filter_status ''canceled'' self"

definition attended :: "HelpStatusQuerySet \<Rightarrow> HelpStatusQuerySet" where
  "attended self = filter_status ''attended'' self"


section \<open>HelpRequest\<close>


text \<open>
  \<open>HELP_OPTIONS = dict(HELP_REQUEST)\<close>: building a dictionary from pairs lets a later
  pair win over an earlier one with the same key, hence the reversal.
\<close>

definition HELP_OPTIONS :: "int \<rightharpoonup> string" where
  "HELP_OPTIONS = map_of (rev HELP_REQUEST)"

text \<open>
  \<open>has_updates\<close> (lines 136-137) compares two timestamps.  On an instance that was never
  saved \<open>modified_date\<close> is \<open>None\<close>, and ordering a datetime against \<open>None\<close> raises
  \<open>TypeError\<close>.
\<close>

definition has_updates :: "HelpRequest \<Rightarrow> error + bool" where
  "has_updates self =
     (case modified_date self of
        None \<Rightarrow> Inl TypeError
      | Some m \<Rightarrow> Inr (last_access self < m))"

text \<open>\<open>get_help_label\<close> (lines 139-140): \<open>dict.get\<close> with the default \<open>''\<close>.\<close>

definition get_help_label :: "HelpRequest \<Rightarrow> string" where
  "get_help_label self =
     (case HELP_OPTIONS (HelpRequest.help_with self) of
        None \<Rightarrow> ''''
      | Some label \<Rightarrow> label)"

text \<open>
  Constructing a request from its requester alone takes every other field from the
  defaults declared in lines 128-132: no volunteer, \<open>help_with = 0\<close>, \<open>status = 'new'\<close>,
  and \<open>last_access = timezone.now\<close>, the clock read at construction (\<open>now\<close>).
\<close>

definition HelpRequest_init :: "int option \<Rightarrow> datetime \<Rightarrow> HelpRequest" where
  "HelpRequest_init req now =
     \<lparr> id' = None, created_date = None, modified_date = None,
       requester = req, volunteer = None, help_with = 0,
       status = ''new'', last_access = now \<rparr>"


section \<open>Geospatial serialization\<close>

text \<open>
  The values \<open>json()\<close> builds: \<open>None\<close>, strings, integers, floats, tuples, lists and
  dictionaries with string keys.  A dictionary is an association list with distinct keys, read with
  \<^const>\<open>map_of\<close>; item assignment \<open>d[k] = v\<close> is \<^const>\<open>AList.update\<close>.
\<close>

datatype pyval =
    PNone
  | PStr string
  | PInt int
  | PFloat real
  | PTuple "pyval list"
  | PList "pyval list"
  | PDict "(string \<times> pyval) list"

text \<open>The test \<open>if self.id:\<close> holds when the key is neither \<open>None\<close> nor \<open>0\<close>.\<close>

definition truthy :: "int option \<Rightarrow> bool" where
  "truthy v = (case v of None \<Rightarrow> False | Some i \<Rightarrow> i \<noteq> 0)"

definition id_value :: "int option \<Rightarrow> pyval" where
  "id_value v = (case v of None \<Rightarrow> PNone | Some i \<Rightarrow> PInt i)"

definition coord_tuple :: "real \<times> real \<Rightarrow> pyval" where
  "coord_tuple p = PTuple [PFloat (fst p), PFloat (snd p)]"

text \<open>
  \<open>Track.json\<close> (lines 169-180).  Iterating a line string gives its coordinate tuples.
  The assignment \<open>d['properties']['id'] = self.id\<close> changes the inner dictionary that
  \<open>d\<close> refers to.
\<close>

definition Track_json :: "Track \<Rightarrow> (string \<times> pyval) list" where
  "Track_json self =
     (let properties = [(''start'', PStr (start self)), (''end'', PStr (end' self))];
          properties = (if truthy (id' self)
                        then AList.update ''id'' (id_value (id' self)) properties
                        else properties)
      in [(''type'', PStr ''LineString''),
          (''coordinates'', PList (map coord_tuple (track self))),
          (''properties'', PDict properties)])"

text \<open>
  \<open>Point.json\<close> (lines 188-198).  \<open>get_coords()\<close> of a point is the tuple of its two
  coordinates.
\<close>

definition Point_json :: "Point \<Rightarrow> (string \<times> pyval) list" where
  "Point_json self =
     (let properties = [(''address'', PStr (address self))];
          properties = (if truthy (id' self)
                        then AList.update ''id'' (id_value (id' self)) properties
                        else properties)
      in [(''type'', PStr ''LineString''),
          (''coordinates'', coord_tuple (coords self)),
          (''properties'', PDict properties)])"


section \<open>Saving\<close>

text \<open>
  No model of the file overrides \<open>save()\<close>.  What a save does to a model built on
  \<open>BaseModel\<close> follows from the declarations of lines 66-67: a row that is inserted gets
  its key and has \<open>created_date\<close> (\<open>auto_now_add\<close>) and \<open>modified_date\<close> (\<open>auto_now\<close>)
  stamped from the clock, a row that is updated has \<open>modified_date\<close> stamped alone.  No
  field is validated on the way.  The row then goes to the database, which stores it or
  raises an error.  The database is not part of the file: what its table enforces (NOT
  NULL, the width of a column, ...) is the parameter \<open>constraints\<close>.

  An instance is updated when its key is the key of a row of the table, and inserted
  otherwise, under its own key or, when it has none, under the next key \<open>pk\<close> of the
  table.  \<open>t_created\<close> and \<open>t_modified\<close> are the readings of the clock for the two
  stamps.  The result is the instance as \<open>save()\<close> leaves it, with the table.
\<close>

definition save ::
  "('a BaseModel_scheme \<Rightarrow> bool) \<Rightarrow> datetime \<Rightarrow> datetime \<Rightarrow> int \<Rightarrow>
   'a BaseModel_scheme list \<Rightarrow> 'a BaseModel_scheme \<Rightarrow>
   error + 'a BaseModel_scheme \<times> 'a BaseModel_scheme list" where
  "save constraints t_created t_modified pk table self =
     (let update = (case id' self of None \<Rightarrow> False | Some k \<Rightarrow> Some k \<in> set (map id' table));
          row = (if update then self\<lparr> modified_date := Some t_modified \<rparr>
                 else self\<lparr> id' := Some (case id' self of None \<Rightarrow> pk | Some k \<Rightarrow> k),
                            created_date := Some t_created,
                            modified_date := Some t_modified \<rparr>)
      in if constraints row
         then Inr (row, if update then map (\<lambda>x. if id' x = id' row then row else x) table
                        else table @ [row])
         else Inl DatabaseError)"

text \<open>
  \<open>HelpRequest.objects.create(requester=req)\<close>: construct, then save.  The clock is read
  at construction (\<open>t_init\<close>, for the default of \<open>last_access\<close>) and again by the save.
\<close>

definition objects_create ::
  "(HelpRequest \<Rightarrow> bool) \<Rightarrow> datetime \<Rightarrow> datetime \<Rightarrow> datetime \<Rightarrow> int \<Rightarrow>
   HelpRequest list \<Rightarrow> int option \<Rightarrow> error + HelpRequest \<times> HelpRequest list" where
  "objects_create constraints t_init t_created t_modified pk table req =
     save constraints t_created t_modified pk table (HelpRequest_init req t_init)"


text \<open>
  Two tables for the examples, with the constraints that the declarations give their
  columns: a column is NOT NULL unless it is declared \<open>null\<close>, and a character column
  has the declared width.
\<close>

definition HelpRequest_columns :: "HelpRequest \<Rightarrow> bool" where
  "HelpRequest_columns row \<longleftrightarrow> requester row \<noteq> None \<and> length (status row) \<le> 16"



section \<open>Field validation\<close>
















section \<open>The help vocabulary\<close>

text \<open>
  C8: \<open>HELP\<close> is the four offer topics (codes 1, 2, 4, 8) followed by the four request
  topics (codes 16, 32, 64, 128), in the order of declaration.  The eight codes are the
  powers of two from \<open>2 ^ 0\<close> to \<open>2 ^ 7\<close>, strictly ascending and pairwise distinct, so
  no two topics share a bit.
\<close>

theorem HELP_codes_ascending_powers_of_two:
  "HELP = HELP_OFFER @ HELP_REQUEST \<and>
   map fst HELP_OFFER = [1, 2, 4, 8] \<and>
   map fst HELP_REQUEST = [16, 32, 64, 128] \<and>
   map fst HELP = map (\<lambda>k. 2 ^ k) [0..<8] \<and>
   sorted_wrt (<) (map fst HELP) \<and>
   distinct (map fst HELP)"
  by (simp add: HELP_def HELP_OFFER_def HELP_REQUEST_def upt_rec)


section \<open>The label sequences\<close>

text \<open>
  The loop leaves at the first code that the mask reaches.  The first code is 1, so a
  positive mask yields nothing; the mask 0 has no bit to yield.
\<close>

lemma User_help_labels_nonnegative_mask:
  "0 \<le> User.help_with u \<Longrightarrow> User_help_labels u = []"
  by (cases "User.help_with u = 0")
     (simp_all add: User_help_labels_def HELP_def HELP_OFFER_def HELP_REQUEST_def)

text \<open>
  C1: for a mask with bits only at the vocabulary codes, \<open>help_labels\<close> should yield the
  labels of the set bits in ascending order; for \<open>help_with = 1 | 4\<close> the two labels
  'Teach someone to ride a bike' and 'Advice about safe routes'.  The function as written
  compares with \<open>>=\<close> before it tests the bit: at \<open>help_with = 1 | 4 = 5\<close> the first code
  gives \<open>5 >= 1\<close>, the loop is left and nothing is yielded.
\<close>

theorem User_help_labels_mask_1_4:
  "User_help_labels
     \<lparr> country = '''', city = '''', gender = '''', birthday = None, ride_experience = '''',
       bike_use = '''', help_with = 1 OR 4, initiatives = '''', role = ''volunteer'' \<rparr> = []"
  by (simp add: User_help_labels_def HELP_def HELP_OFFER_def HELP_REQUEST_def)

lemma help_labels_from_same_mask:
  "User.help_with u = HelpRequest.help_with r \<Longrightarrow>
   User_help_labels_from u xs = HelpRequest_help_labels_from r xs"
  by (induction xs) auto

text \<open>
  C10: \<open>User.help_labels\<close> and \<open>HelpRequest.help_labels\<close> are the same function of the
  \<open>help_with\<close> field: a user and a request with equal masks yield the same sequence of
  labels.
\<close>

theorem help_labels_User_eq_HelpRequest:
  "User.help_with u = HelpRequest.help_with r \<Longrightarrow>
   User_help_labels u = HelpRequest_help_labels r"
  by (simp add: User_help_labels_def HelpRequest_help_labels_def help_labels_from_same_mask)

text \<open>An instance with the mask \<open>-1\<close>, which lies below every code and has every bit set.\<close>

theorem help_labels_User_eq_HelpRequest_witness:
  "User.help_with
     \<lparr> country = '''', city = '''', gender = '''', birthday = None, ride_experience = '''',
       bike_use = '''', help_with = -1, initiatives = '''', role = '''' \<rparr>
   = HelpRequest.help_with
     \<lparr> id' = None, created_date = None, modified_date = None, requester = Some 1,
       volunteer = None, help_with = -1, status = ''new'', last_access = 0 \<rparr>
   \<and> User_help_labels
     \<lparr> country = '''', city = '''', gender = '''', birthday = None, ride_experience = '''',
       bike_use = '''', help_with = -1, initiatives = '''', role = '''' \<rparr>
   = HelpRequest_help_labels
     \<lparr> id' = None, created_date = None, modified_date = None, requester = Some 1,
       volunteer = None, help_with = -1, status = ''new'', last_access = 0 \<rparr>"
  using help_labels_User_eq_HelpRequest
    [of "\<lparr> country = '''', city = '''', gender = '''', birthday = None, ride_experience = '''',
          bike_use = '''', help_with = -1, initiatives = '''', role = '''' \<rparr>"
        "\<lparr> id' = None, created_date = None, modified_date = None, requester = Some 1,
          volunteer = None, help_with = -1, status = ''new'', last_access = 0 \<rparr>"]
  by simp

text \<open>
  C9: \<open>get_help_label\<close> returns the label of a request topic exactly when \<open>help_with\<close>
  is one of the codes 16, 32, 64, 128, and the empty string for every other value, among
  them 0, the two-bit mask 48 and the offer codes 1, 2, 4, 8.
\<close>

theorem get_help_label_exact_code:
  "get_help_label r =
     (if HelpRequest.help_with r = 16 then ''Learn to ride a bike''
      else if HelpRequest.help_with r = 32 then ''Pratice cycling''
      else if HelpRequest.help_with r = 64 then ''Monitoring on traffic''
      else if HelpRequest.help_with r = 128 then ''Route recomendation''
      else '''') \<and>
   (get_help_label r \<noteq> '''') = (HelpRequest.help_with r \<in> {16, 32, 64, 128}) \<and>
   map (\<lambda>m. get_help_label (r\<lparr>HelpRequest.help_with := m\<rparr>)) [0, 48, 1, 2, 4, 8] =
     ['''', '''', '''', '''', '''', '''']"
  by (simp add: get_help_label_def HELP_OPTIONS_def HELP_REQUEST_def)

section \<open>The status filters and the update flag\<close>

text \<open>
  C2: for every collection of requests, \<open>active()\<close> returns exactly the requests whose
  status is 'new' or 'assigned', and \<open>closed()\<close> exactly those whose status is 'canceled'
  or 'attended'.  Hence the two results are disjoint, and a request with the declared
  status 'finished' is in neither of them.
\<close>

theorem active_closed_partition:
  "active qs = filter (\<lambda>r. status r = ''new'' \<or> status r = ''assigned'') qs \<and>
   closed qs = filter (\<lambda>r. status r = ''canceled'' \<or> status r = ''attended'') qs \<and>
   set (active qs) \<inter> set (closed qs) = {} \<and>
   r\<lparr>status := ''finished''\<rparr> \<notin> set (active qs) \<union> set (closed qs)"
  by (auto simp: active_def closed_def filter_status_in_def)

text \<open>
  C3: \<open>has_updates()\<close> returns true if and only if \<open>last_access\<close> is strictly earlier
  than \<open>modified_date\<close>.  It returns false when the two are equal, as after a write that
  set both to the same instant \<open>t\<close>.
\<close>

theorem has_updates_iff_last_access_earlier:
  "(has_updates r = Inr True) = (\<exists>m. modified_date r = Some m \<and> last_access r < m) \<and>
   has_updates (r\<lparr>modified_date := Some (last_access r)\<rparr>) = Inr False \<and>
   has_updates (r\<lparr>modified_date := Some t, last_access := t\<rparr>) = Inr False"
  by (auto simp: has_updates_def split: option.splits)

lemma save_insert:
  "id' self = None \<Longrightarrow> save cs tc tm pk table self = Inr (r, table') \<Longrightarrow>
   r = self\<lparr> id' := Some pk, created_date := Some tc, modified_date := Some tm \<rparr> \<and>
   table' = table @ [r]"
  by (auto simp: save_def Let_def split: if_splits)

lemma save_stamps_modified_date:
  "save cs tc tm pk table self = Inr (r, table') \<Longrightarrow>
   modified_date r = Some tm \<and> last_access r = last_access self"
  by (auto simp: save_def Let_def split: if_splits option.splits)

text \<open>
  A request constructed at the instant 10 and saved with the stamps 11 and 12, into an
  empty table: it is stored as it was created, nothing has modified it since, and
  \<open>has_updates()\<close> is true.
\<close>

theorem created_request_has_updates_at_once:
  "objects_create HelpRequest_columns 10 11 12 1 [] (Some 1) =
     Inr (\<lparr> id' = Some 1, created_date = Some 11, modified_date = Some 12,
            requester = Some 1, volunteer = None, help_with = 0, status = ''new'',
            last_access = 10 \<rparr>,
          [\<lparr> id' = Some 1, created_date = Some 11, modified_date = Some 12,
             requester = Some 1, volunteer = None, help_with = 0, status = ''new'',
             last_access = 10 \<rparr>]) \<and>
   has_updates
     \<lparr> id' = Some 1, created_date = Some 11, modified_date = Some 12,
       requester = Some 1, volunteer = None, help_with = 0, status = ''new'',
       last_access = 10 \<rparr> = Inr True"
  by (simp add: objects_create_def save_def HelpRequest_init_def HelpRequest_columns_def
      has_updates_def Let_def)

text \<open>
  C7, as the code has it: a request created without a status or a volunteer (here by
  \<open>objects.create\<close>, into any table that accepts it) has the status 'new' and no
  volunteer; \<open>active()\<close> of the table includes it and \<open>closed()\<close> excludes it.  Its
  \<open>last_access\<close> is the instant \<open>t0\<close> of its construction and its \<open>modified_date\<close> the
  stamp \<open>tm\<close> of the creating save, so \<open>has_updates()\<close> on the fresh request is true
  exactly when the save was stamped after the construction; with a clock that does not
  run backwards it is false only when the two instants are the same.  After a later save
  it is true exactly when the stamp \<open>tm'\<close> of that save is after \<open>last_access\<close>.
\<close>

theorem created_request_active_and_updates:
  "objects_create cs t0 tc tm pk table req = Inr (r, table') \<longrightarrow>
     status r = ''new'' \<and> volunteer r = None \<and>
     r \<in> set (active table') \<and> r \<notin> set (closed table') \<and>
     last_access r = t0 \<and> modified_date r = Some tm \<and>
     has_updates r = Inr (t0 < tm) \<and>
     (save cs tc' tm' pk' table' r = Inr (r', table'') \<longrightarrow> has_updates r' = Inr (t0 < tm'))"
proof
  assume "objects_create cs t0 tc tm pk table req = Inr (r, table')"
  then have s: "save cs tc tm pk table (HelpRequest_init req t0) = Inr (r, table')"
    by (simp add: objects_create_def)
  have "id' (HelpRequest_init req t0) = None"
    by (simp add: HelpRequest_init_def)
  from save_insert [OF this s]
  have r: "r = (HelpRequest_init req t0)
                 \<lparr> id' := Some pk, created_date := Some tc, modified_date := Some tm \<rparr>"
    and t: "table' = table @ [r]"
    by simp_all
  have st: "status r = ''new''" and v: "volunteer r = None"
    and la: "last_access r = t0" and md: "modified_date r = Some tm"
    by (simp_all add: r HelpRequest_init_def)
  have ac: "r \<in> set (active table')"
    using st t by (simp add: active_def filter_status_in_def)
  have cl: "r \<notin> set (closed table')"
    using st by (simp add: closed_def filter_status_in_def)
  have h: "has_updates r = Inr (t0 < tm)"
    using la md by (simp add: has_updates_def)
  have l: "save cs tc' tm' pk' table' r = Inr (r', table'') \<longrightarrow>
           has_updates r' = Inr (t0 < tm')"
    using save_stamps_modified_date [of cs tc' tm' pk' table' r r' table''] la
    by (auto simp: has_updates_def)
  from st v ac cl la md h l
  show "status r = ''new'' \<and> volunteer r = None \<and>
     r \<in> set (active table') \<and> r \<notin> set (closed table') \<and>
     last_access r = t0 \<and> modified_date r = Some tm \<and>
     has_updates r = Inr (t0 < tm) \<and>
     (save cs tc' tm' pk' table' r = Inr (r', table'') \<longrightarrow> has_updates r' = Inr (t0 < tm'))"
    by blast
qed

text \<open>
  The request above, created with the clock at 10, 11 and 12, and saved again with the
  clock at 30 and 31.
\<close>

theorem created_request_active_and_updates_witness:
  "objects_create HelpRequest_columns 10 11 12 1 [] (Some 1) =
     Inr (\<lparr> id' = Some 1, created_date = Some 11, modified_date = Some 12,
            requester = Some 1, volunteer = None, help_with = 0, status = ''new'',
            last_access = 10 \<rparr>,
          [\<lparr> id' = Some 1, created_date = Some 11, modified_date = Some 12,
             requester = Some 1, volunteer = None, help_with = 0, status = ''new'',
             last_access = 10 \<rparr>]) \<and>
   save HelpRequest_columns 30 31 2
     [\<lparr> id' = Some 1, created_date = Some 11, modified_date = Some 12,
        requester = Some 1, volunteer = None, help_with = 0, status = ''new'',
        last_access = 10 \<rparr>]
     \<lparr> id' = Some 1, created_date = Some 11, modified_date = Some 12,
       requester = Some 1, volunteer = None, help_with = 0, status = ''new'',
       last_access = 10 \<rparr> =
     Inr (\<lparr> id' = Some 1, created_date = Some 11, modified_date = Some 31,
            requester = Some 1, volunteer = None, help_with = 0, status = ''new'',
            last_access = 10 \<rparr>,
          [\<lparr> id' = Some 1, created_date = Some 11, modified_date = Some 31,
             requester = Some 1, volunteer = None, help_with = 0, status = ''new'',
             last_access = 10 \<rparr>]) \<and>
   \<lparr> id' = Some 1, created_date = Some 11, modified_date = Some 12,
     requester = Some 1, volunteer = None, help_with = 0, status = ''new'',
     last_access = 10 \<rparr>
     \<in> set (active
         [\<lparr> id' = Some 1, created_date = Some 11, modified_date = Some 12,
            requester = Some 1, volunteer = None, help_with = 0, status = ''new'',
            last_access = 10 \<rparr>]) \<and>
   has_updates
     \<lparr> id' = Some 1, created_date = Some 11, modified_date = Some 12,
       requester = Some 1, volunteer = None, help_with = 0, status = ''new'',
       last_access = 10 \<rparr> = Inr (10 < (12::int)) \<and>
   has_updates
     \<lparr> id' = Some 1, created_date = Some 11, modified_date = Some 31,
       requester = Some 1, volunteer = None, help_with = 0, status = ''new'',
       last_access = 10 \<rparr> = Inr (10 < (31::int))"
proof -
  let ?r = "\<lparr> id' = Some 1, created_date = Some 11, modified_date = Some 12,
              requester = Some 1, volunteer = None, help_with = 0, status = ''new'',
              last_access = 10 \<rparr>"
  let ?r' = "\<lparr> id' = Some 1, created_date = Some 11, modified_date = Some 31,
               requester = Some 1, volunteer = None, help_with = 0, status = ''new'',
               last_access = 10 \<rparr>"
  have c: "objects_create HelpRequest_columns 10 11 12 1 [] (Some 1) = Inr (?r, [?r])"
    by (simp add: objects_create_def save_def HelpRequest_init_def HelpRequest_columns_def
        Let_def)
  have s: "save HelpRequest_columns 30 31 2 [?r] ?r = Inr (?r', [?r'])"
    by (simp add: save_def HelpRequest_columns_def Let_def)
  from created_request_active_and_updates
         [of HelpRequest_columns 10 11 12 1 "[]" "Some 1" ?r "[?r]" 30 31 2 ?r' "[?r']"] c s
  show ?thesis by simp
qed


section \<open>Geospatial serialization\<close>

text \<open>
  C4: for every point, \<open>json()\<close> returns a mapping whose 'type' is the string
  'LineString', whose 'coordinates' is the flat pair of the stored coordinate (the pair
  itself, not a list of pairs), and whose 'properties' holds the address.  For the
  coordinates (-46.6, -23.5) the value of 'coordinates' is the pair -46.6, -23.5.
\<close>

theorem Point_json_flat_coordinates:
  "map_of (Point_json p) ''type'' = Some (PStr ''LineString'') \<and>
   map_of (Point_json p) ''coordinates'' =
     Some (PTuple [PFloat (fst (coords p)), PFloat (snd (coords p))]) \<and>
   (\<exists>props. map_of (Point_json p) ''properties'' = Some (PDict props) \<and>
      map_of props ''address'' = Some (PStr (address p))) \<and>
   map_of (Point_json (p\<lparr>coords := (-46.6, -23.5)\<rparr>)) ''coordinates'' =
     Some (PTuple [PFloat (-46.6), PFloat (-23.5)])"
  by (simp add: Point_json_def coord_tuple_def Let_def)

text \<open>
  A saved track whose key is 0: the test \<open>if self.id:\<close> fails on 0, and the properties
  are left with 'start' and 'end' only.
\<close>

theorem Track_json_key_zero_omits_id:
  "map_of (Track_json
     \<lparr> id' = Some 0, created_date = Some 1, modified_date = Some 1, Track.user = Some 1,
       start = ''a'', end' = ''b'', track = [(0, 0), (1, 1)] \<rparr>) ''properties'' =
   Some (PDict [(''start'', PStr ''a''), (''end'', PStr ''b'')])"
  by (simp add: Track_json_def Let_def truthy_def)

text \<open>
  C5, as the code has it: for every track, \<open>json()\<close> returns a mapping with exactly the
  keys 'type', 'coordinates' and 'properties'; the properties hold 'start' and 'end',
  and they hold the key 'id' if and only if the entity's identifier is set and is not
  0, in which case the value is that identifier.  An unsaved instance (no identifier)
  omits 'id', and a saved instance with the identifier 7 has \<open>"id": 7\<close>.
\<close>

theorem Track_json_keys_and_id:
  "set (map fst (Track_json t)) = {''type'', ''coordinates'', ''properties''} \<and>
   distinct (map fst (Track_json t)) \<and>
   (\<exists>props. map_of (Track_json t) ''properties'' = Some (PDict props) \<and>
      map_of props ''start'' = Some (PStr (start t)) \<and>
      map_of props ''end'' = Some (PStr (end' t)) \<and>
      map_of props ''id'' =
        (case id' t of None \<Rightarrow> None | Some i \<Rightarrow> if i = 0 then None else Some (PInt i))) \<and>
   map_of (Track_json (t\<lparr>id' := None\<rparr>)) ''properties'' =
     Some (PDict [(''start'', PStr (start t)), (''end'', PStr (end' t))]) \<and>
   map_of (Track_json (t\<lparr>id' := Some 7\<rparr>)) ''properties'' =
     Some (PDict [(''start'', PStr (start t)), (''end'', PStr (end' t)), (''id'', PInt 7)])"
  by (auto simp: Track_json_def Let_def truthy_def id_value_def split: option.splits)


section \<open>Validation before a write\<close>












end
